theory Spec2Isabelle
  imports Main
begin

section \<open>Shell execution of the GitOps extension (src/cli/shell/exec.ts)\<close>

text \<open>
  The development follows \<^verbatim>\<open>exec.ts\<close>. Values of JavaScript that may be
  \<^verbatim>\<open>null\<close> or \<^verbatim>\<open>undefined\<close> are options, objects with string keys are
  association lists, and everything the module does to its surroundings (the
  \<^verbatim>\<open>process.env\<close> object, calls of \<^verbatim>\<open>shelljs.exec\<close>, \<^verbatim>\<open>output.send\<close>,
  \<^verbatim>\<open>tkill\<close>, \<^verbatim>\<open>setTimeout\<close>) is returned as data. What the libraries and the
  runtime do in return (\<^verbatim>\<open>shelljs.exec\<close>, \<^verbatim>\<open>tkill\<close>, \<^verbatim>\<open>parseInt\<close>, the events of the
  child process) is given from outside.
\<close>

subsection \<open>Platform\<close>

definition getUseWsl :: bool where
  "getUseWsl = False"

datatype Platform = Windows | MacOS | Linux | Unsupported

definition WINDOWS :: string where
  "WINDOWS = ''win32''"

text \<open>The argument of the three functions below is \<^verbatim>\<open>process.platform\<close>.\<close>

definition isWindows :: "string \<Rightarrow> bool" where
  "isWindows process_platform = (process_platform = WINDOWS \<and> \<not> getUseWsl)"

definition isUnix :: "string \<Rightarrow> bool" where
  "isUnix process_platform = (\<not> isWindows process_platform)"

definition platform :: "string \<Rightarrow> Platform" where
  "platform process_platform =
     (if getUseWsl then Linux
      else if process_platform = ''win32'' then Windows
      else if process_platform = ''darwin'' then MacOS
      else if process_platform = ''linux'' then Linux
      else Unsupported)"

subsection \<open>Results\<close>

text \<open>
  \<^verbatim>\<open>ShellResult.code\<close> is declared a number, but the exit handler compares it with
  \<^verbatim>\<open>null\<close>: a process ended by a signal reports no exit code. \<open>None\<close> is that null.
\<close>

record ShellResult =
  code :: "int option"
  stdout :: string
  stderr :: string

text \<open>
  A promise is settled at most once, or stays pending. An exception is the text that
  \<^verbatim>\<open>String\<close> makes of it.
\<close>

datatype 'a promise = Pending | Resolved 'a | Rejected string

text \<open>The \<^verbatim>\<open>TypeError\<close> of reading a property of \<^verbatim>\<open>null\<close>.\<close>

definition nullTypeError :: "string \<Rightarrow> string" where
  "nullTypeError property =
     ''TypeError: Cannot read properties of null (reading '' @ [CHR 0x27] @ property
       @ [CHR 0x27] @ '')''"

subsection \<open>Numbers\<close>

text \<open>
  A number as \<^verbatim>\<open>parseInt\<close> returns it: \<^verbatim>\<open>NaN\<close>, an infinity, or a finite double whose
  value is an integer (\<open>Num 0\<close> stands for both zeros, which \<^verbatim>\<open>===\<close> does not tell
  apart). \<^verbatim>\<open>parseInt\<close> itself belongs to the language: its result is read from the
  host below.
\<close>

datatype jsnumber = NaN | Num int | Infinity | MinusInfinity

definition isNaN :: "jsnumber \<Rightarrow> bool" where
  "isNaN n = (n = NaN)"

text \<open>
  The delay given to \<^verbatim>\<open>setTimeout\<close>, as the code writes it: the product of a number
  and an integer literal, which is computed in floating point and is kept as a
  product here, or an integer literal.
\<close>

datatype delay = Product jsnumber int | Literal int

subsection \<open>Environment and options of a launch\<close>

type_synonym env = "(string \<times> string) list"

fun setProp :: "string \<Rightarrow> string \<Rightarrow> env \<Rightarrow> env" where
  "setProp k v [] = [(k, v)]"
| "setProp k v ((k', v') # kvs) =
     (if k' = k then (k, v) # kvs else (k', v') # setProp k v kvs)"

definition getProp :: "env \<Rightarrow> string \<Rightarrow> string option" where
  "getProp e k = map_of e k"

text \<open>
  What \<^verbatim>\<open>execOpts\<close> and \<^verbatim>\<open>setExecTimeoutKill\<close> read from the extension host:
  \<^verbatim>\<open>process.platform\<close>, the object \<^verbatim>\<open>process.env\<close>, the setting
  \<^verbatim>\<open>vs-kubernetes.kubeconfig\<close> (\<open>None\<close> when its value is not a string), the stored
  \<^verbatim>\<open>FluxPath\<close> (\<open>None\<close> when undefined), and \<^verbatim>\<open>timeoutSeconds\<close>, the number that
  \<^verbatim>\<open>parseInt\<close> makes of the setting \<^verbatim>\<open>gitops.execTimeout\<close> (\<^verbatim>\<open>NaN\<close> when the setting is
  missing or does not start with a number).
\<close>

record host =
  process_platform :: string
  process_env :: env
  kubeconfigPath :: "string option"
  fluxPath :: "string option"
  timeoutSeconds :: jsnumber

record ExecOptions =
  cwd :: "string option"
  env :: env
  async :: bool
  silent :: "bool option"

text \<open>
  \<^verbatim>\<open>let env = process.env\<close> binds the object itself, so the two assignments of
  \<^verbatim>\<open>execOpts\<close> are assignments to \<^verbatim>\<open>process.env\<close>; the function therefore returns
  the host as it has left it. A string or \<^verbatim>\<open>undefined\<close> is truthy when it is a string
  that is not empty, and \<^verbatim>\<open>ToString\<close> turns \<^verbatim>\<open>undefined\<close>, which reading \<^verbatim>\<open>env.Path\<close>
  gives when it is not set, into that word. Keys are compared as they are written.
\<close>

definition truthy :: "string option \<Rightarrow> bool" where
  "truthy v = (case v of None \<Rightarrow> False | Some s \<Rightarrow> s \<noteq> [])"

definition toString :: "string option \<Rightarrow> string" where
  "toString v = (case v of None \<Rightarrow> ''undefined'' | Some s \<Rightarrow> s)"

definition execOpts :: "string option \<Rightarrow> host \<Rightarrow> ExecOptions \<times> host" where
  "execOpts cwd_arg h =
     (let env0 = process_env h;
          env1 = (if isWindows (process_platform h) \<or> isUnix (process_platform h) then
                    (let env_k = (case kubeconfigPath h of
                                    Some p \<Rightarrow> if p \<noteq> [] then setProp ''KUBECONFIG'' p env0 else env0
                                  | None \<Rightarrow> env0)
                     in if isWindows (process_platform h) then
                          (if truthy (fluxPath h) then
                             setProp ''Path''
                               (toString (getProp env_k ''Path'') @ '';'' @ toString (fluxPath h))
                               env_k
                           else env_k)
                        else env_k)
                  else env0)
      in (\<lparr> cwd = cwd_arg, env = env1, async = True, silent = Some True \<rparr>,
          h \<lparr> process_env := env1 \<rparr>))"

subsection \<open>The timeout\<close>

text \<open>The child process object, as far as the module reads it.\<close>

record ChildProcess =
  pid :: nat
  exitCode :: "int option"
  spawnargs :: "string list"

datatype timer_callback = DeadlineCallback | GraceCallback

text \<open>What a timer callback does: the calls it makes, in order.\<close>

datatype action =
    ConsoleWarn string nat string
  | TKill nat nat
  | SetTimeout timer_callback delay

fun join :: "string \<Rightarrow> string list \<Rightarrow> string" where
  "join sep [] = []"
| "join sep [x] = x"
| "join sep (x # y # ys) = x @ sep @ join sep (y # ys)"

text \<open>
  \<^verbatim>\<open>setExecTimeoutKill\<close> up to its \<^verbatim>\<open>setTimeout\<close>, from the number \<^verbatim>\<open>timeoutSeconds\<close>:
  the timer it arms.
\<close>

definition setExecTimeoutKill :: "jsnumber \<Rightarrow> action list" where
  "setExecTimeoutKill timeoutSeconds_arg =
     (if isNaN timeoutSeconds_arg \<or> timeoutSeconds_arg = Num 0 then []
      else [SetTimeout DeadlineCallback (Product timeoutSeconds_arg 1000)])"

text \<open>
  \<^verbatim>\<open>tkill\<close> comes from the library tree-kill: given a process identifier and a signal
  it signals the process and the processes below it. Here it is a function that
  says whether the call throws (\<open>Some\<close> of the exception) or returns.
\<close>

type_synonym tkill = "nat \<Rightarrow> nat \<Rightarrow> string option"

text \<open>
  The callback of the outer timer, run with the process object as it is then; the
  object is \<^verbatim>\<open>null\<close> when \<^verbatim>\<open>shelljs.exec\<close> returned that. The result is the calls made
  and the exception that ended the callback, if one did.
\<close>

definition deadlineCallback :: "tkill \<Rightarrow> ChildProcess option \<Rightarrow> action list \<times> string option" where
  "deadlineCallback tk proc =
     (case proc of
        None \<Rightarrow> ([], Some (nullTypeError ''exitCode''))
      | Some p \<Rightarrow>
          if exitCode p = None then
            (case tk (pid p) 15 of
               Some e \<Rightarrow>
                 ([ConsoleWarn ''timeout SIGTERM'' (pid p) (join '' '' (spawnargs p)),
                   TKill (pid p) 15], Some e)
             | None \<Rightarrow>
                 ([ConsoleWarn ''timeout SIGTERM'' (pid p) (join '' '' (spawnargs p)),
                   TKill (pid p) 15,
                   SetTimeout GraceCallback (Literal 2000)], None))
          else ([], None))"

text \<open>
  The callback of the inner timer. \<^verbatim>\<open>isRunning\<close> asks the operating system whether a
  process with that identifier exists; the first argument is the set of live
  process identifiers.
\<close>

definition isRunning :: "nat set \<Rightarrow> nat \<Rightarrow> bool" where
  "isRunning alive p = (p \<in> alive)"

definition graceCallback :: "tkill \<Rightarrow> nat set \<Rightarrow> ChildProcess \<Rightarrow> action list \<times> string option" where
  "graceCallback tk alive proc =
     (if isRunning alive (pid proc) then
        ([ConsoleWarn ''timeout SIGKILL'' (pid proc) (join '' '' (spawnargs proc)),
          TKill (pid proc) 9], tk (pid proc) 9)
      else ([], None))"

subsection \<open>One execution, event by event\<close>

text \<open>
  A call of \<^verbatim>\<open>output.send\<close>: the text and the two options, and which of the four
  calls of \<^verbatim>\<open>innerExec\<close> made it (the echo of the command, the handler of stdout
  data, the handler of stderr data, the exit handler).
\<close>

datatype newline_option = NewlineSingle | NewlineNone

datatype send_site = OfCommand | OfStdout | OfStderr | OfExit

record send_call =
  message :: string
  newline :: newline_option
  revealOutputView :: bool
  site :: send_site

text \<open>
  The state of one execution: the process object and the live process identifiers,
  the timers that are armed, the calls of \<^verbatim>\<open>setTimeout\<close>, \<^verbatim>\<open>console.warn\<close> and
  \<^verbatim>\<open>tkill\<close> made so far, the exceptions that left a timer callback, the two variables
  \<^verbatim>\<open>stdout\<close> and \<^verbatim>\<open>stderr\<close> of \<^verbatim>\<open>innerExec\<close>, the calls of \<^verbatim>\<open>output.send\<close> and
  \<^verbatim>\<open>progress.report\<close>, and the calls of \<^verbatim>\<open>resolve\<close>, all oldest first.
\<close>

record execution =
  proc :: ChildProcess
  alive :: "nat set"
  timers :: "(timer_callback \<times> delay) list"
  calls :: "action list"
  uncaught :: "string list"
  stdout_buf :: string
  stderr_buf :: string
  sent :: "send_call list"
  reported :: "string list"
  resolves :: "ShellResult list"

text \<open>
  What can happen to an execution: a chunk on either stream, the \<^verbatim>\<open>exit\<close> event with
  the exit code (\<open>None\<close> for \<^verbatim>\<open>null\<close>), and an armed timer running out. The event
  emitter delivers whatever comes in whatever order; the handlers below are all the
  module contributes.
\<close>

datatype event =
    StdoutData string
  | StderrData string
  | Exit "int option"
  | Fires timer_callback

text \<open>
  The \<^verbatim>\<open>progress\<close> argument of \<^verbatim>\<open>innerExec\<close> is its \<^verbatim>\<open>report\<close> method, acting on the
  messages reported so far: the notification that \<^verbatim>\<open>window.withProgress\<close> passes in
  shows the message, and \<^verbatim>\<open>progressNoop.report\<close> does nothing.
\<close>

type_synonym Progress = "string \<Rightarrow> string list \<Rightarrow> string list"

definition notification :: Progress where
  "notification data shown = shown @ [data]"

definition progressNoop :: Progress where
  "progressNoop data shown = shown"

definition report :: "Progress \<Rightarrow> string \<Rightarrow> execution \<Rightarrow> execution" where
  "report progress data x = x \<lparr> reported := progress data (reported x) \<rparr>"

definition send :: "string \<Rightarrow> newline_option \<Rightarrow> bool \<Rightarrow> send_site \<Rightarrow> execution \<Rightarrow> execution" where
  "send m n r s x =
     x \<lparr> sent := sent x @ [\<lparr> message = m, newline = n, revealOutputView = r, site = s \<rparr>] \<rparr>"

definition onStdoutData :: "Progress \<Rightarrow> string \<Rightarrow> execution \<Rightarrow> execution" where
  "onStdoutData progress data x =
     report progress data
       (send data NewlineNone False OfStdout (x \<lparr> stdout_buf := stdout_buf x @ data \<rparr>))"

definition onStderrData :: "Progress \<Rightarrow> string \<Rightarrow> execution \<Rightarrow> execution" where
  "onStderrData progress data x =
     report progress data
       (send data NewlineNone False OfStderr (x \<lparr> stderr_buf := stderr_buf x @ data \<rparr>))"

definition timedOut :: "string \<Rightarrow> string \<Rightarrow> string" where
  "timedOut cmd err =
     ''exec '' @ [CHR 0x27] @ cmd @ [CHR 0x27] @ '' timed out.'' @ [CHR 0x0A] @ ''STDERR: '' @ err"

definition onExit :: "string \<Rightarrow> int option \<Rightarrow> execution \<Rightarrow> execution" where
  "onExit cmd c x =
     (let x1 = send [CHR 0x0A] NewlineNone False OfExit x;
          x2 = (if c = None then x1 \<lparr> stderr_buf := timedOut cmd (stderr_buf x1) \<rparr> else x1)
      in x2 \<lparr> resolves := resolves x2 @
                 [\<lparr> code = c, stdout = stdout_buf x2, stderr = stderr_buf x2 \<rparr>] \<rparr>)"

text \<open>
  The calls of a timer callback take effect: each is recorded, and \<^verbatim>\<open>setTimeout\<close> arms
  a timer. An exception that leaves the callback is recorded as well; nothing
  catches it.
\<close>

fun perform :: "action list \<Rightarrow> execution \<Rightarrow> execution" where
  "perform [] x = x"
| "perform (SetTimeout cb d # as) x =
     perform as (x \<lparr> timers := timers x @ [(cb, d)], calls := calls x @ [SetTimeout cb d] \<rparr>)"
| "perform (a # as) x = perform as (x \<lparr> calls := calls x @ [a] \<rparr>)"

definition thrown :: "string option \<Rightarrow> execution \<Rightarrow> execution" where
  "thrown e x = (case e of None \<Rightarrow> x | Some m \<Rightarrow> x \<lparr> uncaught := uncaught x @ [m] \<rparr>)"

fun disarm :: "timer_callback \<Rightarrow> (timer_callback \<times> delay) list \<Rightarrow> (timer_callback \<times> delay) list" where
  "disarm cb [] = []"
| "disarm cb ((cb', d) # ts) = (if cb' = cb then ts else (cb', d) # disarm cb ts)"

definition armed :: "timer_callback \<Rightarrow> execution \<Rightarrow> bool" where
  "armed cb x = (cb \<in> set (map fst (timers x)))"

text \<open>
  One event. When the process ends, the runtime stores the exit code in the process
  object and the operating system forgets the process identifier, before the
  \<^verbatim>\<open>exit\<close> handler runs. A timer that is not armed cannot run out.
\<close>

fun step :: "tkill \<Rightarrow> string \<Rightarrow> Progress \<Rightarrow> execution \<Rightarrow> event \<Rightarrow> execution" where
  "step tk cmd progress x (StdoutData data) = onStdoutData progress data x"
| "step tk cmd progress x (StderrData data) = onStderrData progress data x"
| "step tk cmd progress x (Exit c) =
     onExit cmd c (x \<lparr> proc := (proc x) \<lparr> exitCode := c \<rparr>, alive := alive x - {pid (proc x)} \<rparr>)"
| "step tk cmd progress x (Fires cb) =
     (if armed cb x then
        (let r = (case cb of
                    DeadlineCallback \<Rightarrow> deadlineCallback tk (Some (proc x))
                  | GraceCallback \<Rightarrow> graceCallback tk (alive x) (proc x))
         in thrown (snd r) (perform (fst r) (x \<lparr> timers := disarm cb (timers x) \<rparr>)))
      else x)"

fun run :: "tkill \<Rightarrow> string \<Rightarrow> Progress \<Rightarrow> execution \<Rightarrow> event list \<Rightarrow> execution" where
  "run tk cmd progress x [] = x"
| "run tk cmd progress x (e # es) = run tk cmd progress (step tk cmd progress x e) es"

text \<open>The promise takes the first \<^verbatim>\<open>resolve\<close>; later ones are ignored.\<close>

definition settle :: "ShellResult list \<Rightarrow> ShellResult promise" where
  "settle rs = (case rs of [] \<Rightarrow> Pending | r # _ \<Rightarrow> Resolved r)"

subsection \<open>execWithOutput\<close>

text \<open>
  \<^verbatim>\<open>shelljs.exec\<close> without a callback throws, or returns the child process, or, when it
  refuses the command, returns \<^verbatim>\<open>null\<close> and starts nothing (it does so for an empty
  command). It is a parameter, a function of the command line and the options it is
  given.
\<close>

datatype spawn = SpawnThrows string | SpawnNull | Spawned ChildProcess

record output_run =
  settled :: "ShellResult promise"
  final :: "execution option"
  banner :: send_call
  spawned_with :: "string \<times> ExecOptions"
  armed_at_launch :: "action list"
  host_after :: host

text \<open>
  \<^verbatim>\<open>innerExec\<close>, with the events that reach the child process afterwards. An
  exception in the executor of \<^verbatim>\<open>new Promise\<close> rejects the promise: that of
  \<^verbatim>\<open>shelljs.exec\<close>, or, when \<^verbatim>\<open>shelljs.exec\<close> has returned \<^verbatim>\<open>null\<close>, that of reading
  \<^verbatim>\<open>childProcess.stdout\<close>, which comes after \<^verbatim>\<open>setExecTimeoutKill\<close>.
\<close>

definition innerExec ::
  "tkill \<Rightarrow> string \<Rightarrow> bool \<Rightarrow> string option \<Rightarrow> host \<Rightarrow>
   (string \<Rightarrow> ExecOptions \<Rightarrow> spawn) \<Rightarrow> event list \<Rightarrow> Progress \<Rightarrow> output_run" where
  "innerExec tk cmd revealOutputView_arg cwd_arg h shelljs_exec evs progress =
     (let b = \<lparr> message = ''> '' @ cmd, newline = NewlineSingle,
                revealOutputView = revealOutputView_arg, site = OfCommand \<rparr>;
          (opts, h1) = execOpts None h;
          options = \<lparr> cwd = cwd_arg, env = env opts, async = True, silent = None \<rparr>
      in case shelljs_exec cmd options of
           SpawnThrows e \<Rightarrow>
             \<lparr> settled = Rejected e, final = None, banner = b,
               spawned_with = (cmd, options), armed_at_launch = [], host_after = h1 \<rparr>
         | SpawnNull \<Rightarrow>
             \<lparr> settled = Rejected (nullTypeError ''stdout''), final = None, banner = b,
               spawned_with = (cmd, options),
               armed_at_launch = setExecTimeoutKill (timeoutSeconds h1), host_after = h1 \<rparr>
         | Spawned childProcess \<Rightarrow>
             (let x0 = perform (setExecTimeoutKill (timeoutSeconds h1))
                         \<lparr> proc = childProcess, alive = {pid childProcess}, timers = [],
                           calls = [], uncaught = [], stdout_buf = [], stderr_buf = [],
                           sent = [b], reported = [], resolves = [] \<rparr>;
                  x = run tk cmd progress x0 evs
              in \<lparr> settled = settle (resolves x), final = Some x, banner = b,
                   spawned_with = (cmd, options),
                   armed_at_launch = setExecTimeoutKill (timeoutSeconds h1),
                   host_after = h1 \<rparr>))"

text \<open>
  \<^verbatim>\<open>execWithOutput\<close>; \<^verbatim>\<open>window.withProgress\<close> calls its task with the notification
  and hands on what the task returns. The first argument is the behaviour of
  \<^verbatim>\<open>tkill\<close>.
\<close>

definition execWithOutput ::
  "tkill \<Rightarrow> string \<Rightarrow> bool \<Rightarrow> bool \<Rightarrow> string option \<Rightarrow> host \<Rightarrow>
   (string \<Rightarrow> ExecOptions \<Rightarrow> spawn) \<Rightarrow> event list \<Rightarrow> output_run" where
  "execWithOutput tk cmd revealOutputView_arg showProgress cwd_arg h shelljs_exec evs =
     (if showProgress then
        innerExec tk cmd revealOutputView_arg cwd_arg h shelljs_exec evs notification
      else
        innerExec tk cmd revealOutputView_arg cwd_arg h shelljs_exec evs progressNoop)"

subsection \<open>exec, execCore and execProc\<close>

text \<open>
  \<^verbatim>\<open>shelljs.exec\<close> with a callback throws, or returns \<^verbatim>\<open>null\<close> and never calls the
  callback, or returns the child process and later calls the callback with the exit
  code and the two outputs, or never calls it.
\<close>

datatype exec_outcome =
    Throws string
  | ReturnsNull
  | Runs ChildProcess "(int option \<times> string \<times> string) option"

record core_run =
  result :: "ShellResult promise"
  executed :: "string \<times> ExecOptions"
  armed_timers :: "action list"
  stdin_end :: "string option"
  host_end :: host
  console_error :: "string list"
  showErrorMessage :: "string list"

text \<open>
  \<^verbatim>\<open>callback\<close>, when given, is called with what \<^verbatim>\<open>shelljs.exec\<close> returned and returns
  \<open>Some e\<close> when it throws \<open>e\<close>. An exception in the executor rejects the promise,
  which nothing has resolved by then: that of \<^verbatim>\<open>shelljs.exec\<close>, that of reading
  \<^verbatim>\<open>proc.stdin\<close> when \<^verbatim>\<open>proc\<close> is \<^verbatim>\<open>null\<close> and \<^verbatim>\<open>stdin\<close> is given, or that of the
  callback.
\<close>

definition execCore ::
  "string \<Rightarrow> ExecOptions \<Rightarrow> (ChildProcess option \<Rightarrow> string option) option \<Rightarrow> string option \<Rightarrow>
   host \<Rightarrow> (string \<Rightarrow> ExecOptions \<Rightarrow> exec_outcome) \<Rightarrow> core_run" where
  "execCore cmd opts callback stdin h shelljs_exec =
     (let cmd1 = (if getUseWsl then ''wsl '' @ cmd else cmd);
          r0 = \<lparr> result = Pending, executed = (cmd1, opts), armed_timers = [],
                 stdin_end = None, host_end = h, console_error = [], showErrorMessage = [] \<rparr>;
          out = shelljs_exec cmd1 opts
      in case out of
           Throws e \<Rightarrow> r0 \<lparr> result := Rejected e \<rparr>
         | _ \<Rightarrow>
             (let proc = (case out of Runs p _ \<Rightarrow> Some p | _ \<Rightarrow> None);
                  done = (case out of Runs _ d \<Rightarrow> d | _ \<Rightarrow> None);
                  r1 = r0 \<lparr> armed_timers := setExecTimeoutKill (timeoutSeconds h) \<rparr>
              in if truthy stdin \<and> proc = None then
                   r1 \<lparr> result := Rejected (nullTypeError ''stdin'') \<rparr>
                 else
                   (let r2 = r1 \<lparr> stdin_end := (if truthy stdin then stdin else None) \<rparr>
                    in case (case callback of None \<Rightarrow> None | Some f \<Rightarrow> f proc) of
                         Some e \<Rightarrow> r2 \<lparr> result := Rejected e \<rparr>
                       | None \<Rightarrow>
                           (case done of
                              None \<Rightarrow> r2
                            | Some (c, out_text, err_text) \<Rightarrow>
                                r2 \<lparr> result := Resolved \<lparr> code = c, stdout = out_text,
                                                         stderr = err_text \<rparr> \<rparr>))))"

definition exec ::
  "string \<Rightarrow> string option \<Rightarrow> (ChildProcess option \<Rightarrow> string option) option \<Rightarrow>
   host \<Rightarrow> (string \<Rightarrow> ExecOptions \<Rightarrow> exec_outcome) \<Rightarrow> core_run" where
  "exec cmd cwd_arg callback h shelljs_exec =
     (let (opts, h1) = execOpts cwd_arg h;
          r = execCore cmd opts callback None h1 shelljs_exec
      in case result r of
           Rejected e \<Rightarrow>
             r \<lparr> result := Resolved \<lparr> code = Some 2, stdout = [],
                                      stderr = ''Failed to execute '' @ e \<rparr>,
                 console_error := [e], showErrorMessage := [e] \<rparr>
         | _ \<Rightarrow> r)"

text \<open>
  \<^verbatim>\<open>execProc\<close> returns what \<^verbatim>\<open>shelljs.exec\<close> returned, the child process or \<^verbatim>\<open>null\<close>,
  or its exception.
\<close>

definition execProc ::
  "string \<Rightarrow> host \<Rightarrow> (string \<Rightarrow> ExecOptions \<Rightarrow> exec_outcome) \<Rightarrow>
   (string + ChildProcess option) \<times> (string \<times> ExecOptions) \<times> host" where
  "execProc cmd h shelljs_exec =
     (let (opts, h1) = execOpts None h;
          cmd1 = (if getUseWsl then ''wsl '' @ cmd else cmd)
      in ((case shelljs_exec cmd1 opts of
             Throws e \<Rightarrow> Inl e | ReturnsNull \<Rightarrow> Inr None | Runs p _ \<Rightarrow> Inr (Some p)),
          (cmd1, opts), h1))"

subsection \<open>Reading the output channel\<close>

text \<open>The texts that one of the four call sites has sent so far, in the order sent.\<close>

definition chunks :: "send_site \<Rightarrow> execution \<Rightarrow> string list" where
  "chunks k x = map message (filter (\<lambda>s. site s = k) (sent x))"

text \<open>Every grace timer armed so far has the delay 2000.\<close>

definition grace_ok :: "execution \<Rightarrow> bool" where
  "grace_ok x = (\<forall>d. SetTimeout GraceCallback d \<in> set (calls x) \<longrightarrow> d = Literal 2000)"

subsection \<open>Concrete hosts and processes\<close>

definition linux_host :: host where
  "linux_host =
     \<lparr> process_platform = ''linux'', process_env = [(''PATH'', ''/usr/bin'')],
       kubeconfigPath = None, fluxPath = None, timeoutSeconds = Num 60 \<rparr>"

definition windows_host :: host where
  "windows_host =
     \<lparr> process_platform = ''win32'', process_env = [(''Path'', ''C:/Windows'')],
       kubeconfigPath = Some ''C:/kube/config'', fluxPath = Some ''C:/flux'',
       timeoutSeconds = Num 0 \<rparr>"

definition child :: ChildProcess where
  "child = \<lparr> pid = 100, exitCode = None, spawnargs = [''/bin/sh'', ''-c'', ''flux check''] \<rparr>"

text \<open>\<^verbatim>\<open>tkill\<close> as it behaves for a process identifier that is a number: it returns.\<close>

definition tkill_returns :: tkill where
  "tkill_returns p s = None"

text \<open>
  Two states of an execution of \<open>child\<close> under a timeout of sixty seconds: the
  deadline passed, the grace timer armed, the process and a process it started, 101,
  both there; and the same with the process itself gone and 101 left.
\<close>

definition terminating :: execution where
  "terminating =
     \<lparr> proc = child, alive = {100, 101}, timers = [(GraceCallback, Literal 2000)],
       calls = [SetTimeout DeadlineCallback (Product (Num 60) 1000),
                ConsoleWarn ''timeout SIGTERM'' 100 ''/bin/sh -c flux check'',
                TKill 100 15, SetTimeout GraceCallback (Literal 2000)],
       uncaught = [], stdout_buf = [], stderr_buf = [], sent = [], reported = [],
       resolves = [] \<rparr>"

definition orphaned :: execution where
  "orphaned = terminating \<lparr> alive := {101} \<rparr>"

section \<open>Properties\<close>

subsection \<open>Frames of the handlers\<close>

lemma perform_frame:
  "resolves (perform as x) = resolves x"
  "sent (perform as x) = sent x"
  "stdout_buf (perform as x) = stdout_buf x"
  "stderr_buf (perform as x) = stderr_buf x"
  "proc (perform as x) = proc x"
  "alive (perform as x) = alive x"
  "reported (perform as x) = reported x"
  "uncaught (perform as x) = uncaught x"
  by (induction as x rule: perform.induct) simp_all

lemma perform_calls: "calls (perform as x) = calls x @ as"
  by (induction as x rule: perform.induct) simp_all

lemma perform_timers:
  "timers (perform as x) = timers x @ [(cb, d). SetTimeout cb d \<leftarrow> as]"
  by (induction as x rule: perform.induct) simp_all

lemma thrown_frame:
  "resolves (thrown e x) = resolves x"
  "sent (thrown e x) = sent x"
  "stdout_buf (thrown e x) = stdout_buf x"
  "stderr_buf (thrown e x) = stderr_buf x"
  "proc (thrown e x) = proc x"
  "alive (thrown e x) = alive x"
  "reported (thrown e x) = reported x"
  "calls (thrown e x) = calls x"
  "timers (thrown e x) = timers x"
  by (simp_all add: thrown_def split: option.splits)


lemma execOpts_keeps:
  "timeoutSeconds (snd (execOpts c h)) = timeoutSeconds h"
  "process_platform (snd (execOpts c h)) = process_platform h"
  "kubeconfigPath (snd (execOpts c h)) = kubeconfigPath h"
  "fluxPath (snd (execOpts c h)) = fluxPath h"
  by (simp_all add: execOpts_def Let_def)

text \<open>The state in which \<^verbatim>\<open>innerExec\<close> leaves the executor of its promise.\<close>

lemma innerExec_Spawned:
  assumes "shelljs_exec cmd
             \<lparr> cwd = cwd_arg, env = env (fst (execOpts None h)), async = True, silent = None \<rparr>
           = Spawned p"
  shows "\<exists>x0. resolves x0 = [] \<and> calls x0 = setExecTimeoutKill (timeoutSeconds h)
           \<and> timers x0 = [(cb, d). SetTimeout cb d \<leftarrow> setExecTimeoutKill (timeoutSeconds h)]
           \<and> uncaught x0 = []
           \<and> stdout_buf x0 = [] \<and> stderr_buf x0 = []
           \<and> sent x0 = [\<lparr> message = ''> '' @ cmd, newline = NewlineSingle,
                revealOutputView = rv, site = OfCommand \<rparr>]
           \<and> proc x0 = p \<and> alive x0 = {pid p}
           \<and> (\<forall>tk evs progress.
                 final (innerExec tk cmd rv cwd_arg h shelljs_exec evs progress)
                   = Some (run tk cmd progress x0 evs)
               \<and> settled (innerExec tk cmd rv cwd_arg h shelljs_exec evs progress)
                   = settle (resolves (run tk cmd progress x0 evs)))"
proof -
  let ?x0 = "perform (setExecTimeoutKill (timeoutSeconds h))
               \<lparr> proc = p, alive = {pid p}, timers = [], calls = [], uncaught = [],
                 stdout_buf = [], stderr_buf = [],
                 sent = [\<lparr> message = ''> '' @ cmd, newline = NewlineSingle,
                           revealOutputView = rv, site = OfCommand \<rparr>],
                 reported = [], resolves = [] \<rparr>"
  show ?thesis
    using assms
    by (intro exI[of _ ?x0])
       (simp add: innerExec_def Let_def split_beta execOpts_keeps perform_frame
                  perform_calls perform_timers)
qed

lemma step_frame_data:
  "calls (onStdoutData pr d x) = calls x" "timers (onStdoutData pr d x) = timers x"
  "calls (onStderrData pr d x) = calls x" "timers (onStderrData pr d x) = timers x"
  "calls (onExit cmd c x) = calls x" "timers (onExit cmd c x) = timers x"
  "resolves (onStdoutData pr d x) = resolves x" "resolves (onStderrData pr d x) = resolves x"
  "uncaught (onStdoutData pr d x) = uncaught x" "uncaught (onStderrData pr d x) = uncaught x"
  "uncaught (onExit cmd c x) = uncaught x"
  by (simp_all add: onStdoutData_def onStderrData_def onExit_def report_def send_def Let_def)

text \<open>The calls a timer callback can make.\<close>

lemma deadlineCallback_calls:
  "fst (deadlineCallback tk (Some p)) =
     (if exitCode p = None then
        [ConsoleWarn ''timeout SIGTERM'' (pid p) (join '' '' (spawnargs p)), TKill (pid p) 15]
        @ (if tk (pid p) 15 = None then [SetTimeout GraceCallback (Literal 2000)] else [])
      else [])"
  "snd (deadlineCallback tk (Some p)) = (if exitCode p = None then tk (pid p) 15 else None)"
  by (simp_all add: deadlineCallback_def split: option.splits)

lemma graceCallback_calls:
  "fst (graceCallback tk A p) =
     (if isRunning A (pid p) then
        [ConsoleWarn ''timeout SIGKILL'' (pid p) (join '' '' (spawnargs p)), TKill (pid p) 9]
      else [])"
  "snd (graceCallback tk A p) = (if isRunning A (pid p) then tk (pid p) 9 else None)"
  by (simp_all add: graceCallback_def)

lemma step_Fires:
  "step tk cmd pr x (Fires cb) =
     (if armed cb x then
        thrown (snd (case cb of
                       DeadlineCallback \<Rightarrow> deadlineCallback tk (Some (proc x))
                     | GraceCallback \<Rightarrow> graceCallback tk (alive x) (proc x)))
          (perform (fst (case cb of
                           DeadlineCallback \<Rightarrow> deadlineCallback tk (Some (proc x))
                         | GraceCallback \<Rightarrow> graceCallback tk (alive x) (proc x)))
             (x \<lparr> timers := disarm cb (timers x) \<rparr>))
      else x)"
  by (simp add: Let_def)

lemma step_Fires_frame:
  "resolves (step tk cmd pr x (Fires cb)) = resolves x"
  "proc (step tk cmd pr x (Fires cb)) = proc x"
  "alive (step tk cmd pr x (Fires cb)) = alive x"
  "sent (step tk cmd pr x (Fires cb)) = sent x"
  "stdout_buf (step tk cmd pr x (Fires cb)) = stdout_buf x"
  "stderr_buf (step tk cmd pr x (Fires cb)) = stderr_buf x"
  "reported (step tk cmd pr x (Fires cb)) = reported x"
  by (simp_all add: step_Fires perform_frame thrown_frame del: step.simps)

lemma step_Fires_calls:
  "calls (step tk cmd pr x (Fires cb)) =
     calls x @ (if armed cb x then
                  (case cb of
                     DeadlineCallback \<Rightarrow> fst (deadlineCallback tk (Some (proc x)))
                   | GraceCallback \<Rightarrow> fst (graceCallback tk (alive x) (proc x)))
                else [])"
  by (cases cb) (simp_all add: step_Fires perform_calls thrown_frame del: step.simps)


lemma grace_ok_step: "grace_ok x \<Longrightarrow> grace_ok (step tk cmd pr x e)"
  by (cases e)
     (auto simp: grace_ok_def step_frame_data step_Fires_calls deadlineCallback_calls
                 graceCallback_calls
           simp del: step.simps(4)
           split: timer_callback.splits if_splits)

lemma grace_ok_run: "grace_ok x \<Longrightarrow> grace_ok (run tk cmd pr x evs)"
  by (induction evs arbitrary: x) (simp_all add: grace_ok_step del: step.simps)

lemma idle_step: "calls x = [] \<Longrightarrow> timers x = [] \<Longrightarrow> uncaught x = [] \<Longrightarrow>
   calls (step tk cmd pr x e) = [] \<and> timers (step tk cmd pr x e) = []
   \<and> uncaught (step tk cmd pr x e) = []"
  by (cases e) (simp_all add: step_frame_data armed_def)

lemma idle_run: "calls x = [] \<Longrightarrow> timers x = [] \<Longrightarrow> uncaught x = [] \<Longrightarrow>
   calls (run tk cmd pr x evs) = [] \<and> timers (run tk cmd pr x evs) = []
   \<and> uncaught (run tk cmd pr x evs) = []"
proof (induction evs arbitrary: x)
  case Nil
  then show ?case by simp
next
  case (Cons e evs)
  from idle_step[OF Cons.prems, of tk cmd pr e] Cons.IH show ?case
    by (simp del: step.simps)
qed

lemma setExecTimeoutKill_grace: "SetTimeout GraceCallback d \<notin> set (setExecTimeoutKill t)"
  by (simp add: setExecTimeoutKill_def)

lemma run_append: "run tk cmd pr x (as @ bs) = run tk cmd pr (run tk cmd pr x as) bs"
  by (induction as arbitrary: x) (simp_all del: step.simps)


lemma data_frame:
  "proc (onStdoutData pr d x) = proc x" "alive (onStdoutData pr d x) = alive x"
  "proc (onStderrData pr d x) = proc x" "alive (onStderrData pr d x) = alive x"
  by (simp_all add: onStdoutData_def onStderrData_def report_def send_def)

lemma step_no_exit_frame:
  assumes "\<forall>k. e \<noteq> Exit k"
  shows "resolves (step tk cmd pr x e) = resolves x" "proc (step tk cmd pr x e) = proc x"
    "alive (step tk cmd pr x e) = alive x"
proof -
  show "resolves (step tk cmd pr x e) = resolves x"
    using assms by (cases e) (simp_all add: step_frame_data step_Fires_frame del: step.simps(4))
  show "proc (step tk cmd pr x e) = proc x"
    using assms by (cases e) (simp_all add: data_frame step_Fires_frame del: step.simps(4))
  show "alive (step tk cmd pr x e) = alive x"
    using assms by (cases e) (simp_all add: data_frame step_Fires_frame del: step.simps(4))
qed

lemma resolves_no_exit:
  "\<forall>e\<in>set evs. \<forall>k. e \<noteq> Exit k \<Longrightarrow> resolves (run tk cmd pr x evs) = resolves x"
proof (induction evs arbitrary: x)
  case Nil
  show ?case by simp
next
  case (Cons e evs)
  then have "resolves (step tk cmd pr x e) = resolves x"
    by (intro step_no_exit_frame) simp
  with Cons show ?case by (simp del: step.simps)
qed

lemma step_Exit_facts:
  "exitCode (proc (step tk cmd pr x (Exit c))) = c"
  "pid (proc (step tk cmd pr x (Exit c))) = pid (proc x)"
  "pid (proc (step tk cmd pr x (Exit c))) \<notin> alive (step tk cmd pr x (Exit c))"
  "resolves (step tk cmd pr x (Exit c)) = resolves x @
     [\<lparr> code = c, stdout = stdout_buf x,
        stderr = (if c = None then timedOut cmd (stderr_buf x) else stderr_buf x) \<rparr>]"
  "calls (step tk cmd pr x (Exit c)) = calls x"
  "uncaught (step tk cmd pr x (Exit c)) = uncaught x"
  by (simp_all add: onExit_def send_def Let_def)







subsection \<open>The concrete hosts evaluated\<close>

lemma timeout_windows_host: "setExecTimeoutKill (timeoutSeconds windows_host) = []"
  by (simp add: setExecTimeoutKill_def windows_host_def)

lemma timeout_linux_host:
  "setExecTimeoutKill (timeoutSeconds linux_host)
     = [SetTimeout DeadlineCallback (Product (Num 60) 1000)]"
  by (simp add: setExecTimeoutKill_def linux_host_def isNaN_def)

lemma execOpts_windows_host:
  "execOpts None windows_host =
     (\<lparr> cwd = None,
        env = [(''Path'', ''C:/Windows;C:/flux''), (''KUBECONFIG'', ''C:/kube/config'')],
        async = True, silent = Some True \<rparr>,
      windows_host \<lparr> process_env :=
        [(''Path'', ''C:/Windows;C:/flux''), (''KUBECONFIG'', ''C:/kube/config'')] \<rparr>)"
  by (simp add: execOpts_def Let_def isWindows_def isUnix_def WINDOWS_def getUseWsl_def
        truthy_def toString_def getProp_def windows_host_def)

lemma execOpts_linux_host:
  "execOpts c linux_host =
     (\<lparr> cwd = c, env = [(''PATH'', ''/usr/bin'')], async = True, silent = Some True \<rparr>,
      linux_host)"
  by (simp add: execOpts_def Let_def isWindows_def isUnix_def WINDOWS_def getUseWsl_def
        linux_host_def)

lemmas handler_defs = armed_def deadlineCallback_def graceCallback_def isRunning_def
  onStdoutData_def onStderrData_def onExit_def report_def send_def notification_def
  progressNoop_def settle_def timedOut_def thrown_def tkill_returns_def

lemmas run_linux_host = execWithOutput_def innerExec_def Let_def execOpts_linux_host
  timeout_linux_host handler_defs child_def chunks_def

subsection \<open>Platform and the WSL prefix\<close>

text \<open>
  C9: \<^verbatim>\<open>getUseWsl\<close> is false, so the platform is read off \<^verbatim>\<open>process.platform\<close> alone
  (win32, darwin, linux, anything else unsupported), \<^verbatim>\<open>isUnix\<close> is the negation of
  \<^verbatim>\<open>isWindows\<close>, and \<^verbatim>\<open>execCore\<close>, \<^verbatim>\<open>exec\<close> and \<^verbatim>\<open>execProc\<close> hand the command line to
  \<^verbatim>\<open>shelljs.exec\<close> as they got it, without the prefix \<^verbatim>\<open>wsl\<close>.
\<close>

theorem wsl_never_used:
  "getUseWsl = False
   \<and> platform pp = (if pp = ''win32'' then Windows else if pp = ''darwin'' then MacOS
                    else if pp = ''linux'' then Linux else Unsupported)
   \<and> isWindows pp = (pp = ''win32'')
   \<and> isUnix pp = (\<not> isWindows pp)
   \<and> fst (executed (execCore cmd opts callback stdin h shelljs_exec)) = cmd
   \<and> fst (executed (exec cmd cwd_arg callback h shelljs_exec)) = cmd
   \<and> fst (fst (snd (execProc cmd h shelljs_exec))) = cmd"
  by (simp add: getUseWsl_def platform_def isWindows_def isUnix_def WINDOWS_def execCore_def
        exec_def execProc_def Let_def
      split: exec_outcome.splits option.splits prod.splits promise.splits)

subsection \<open>The grace window, and no timeout configured\<close>

text \<open>
  C6: whatever timeout is configured and whatever happens to the execution, every grace
  timer is armed with the literal 2000 milliseconds; and when the number that
  \<^verbatim>\<open>parseInt\<close> makes of the configured timeout is \<^verbatim>\<open>NaN\<close> (a missing or unparsable
  setting) or 0, no timer is ever armed, no signal is ever sent and no exception is
  raised, in \<^verbatim>\<open>execWithOutput\<close> as in \<^verbatim>\<open>exec\<close>.
\<close>

theorem grace_window_fixed_and_no_timer:
  assumes "final (execWithOutput tk cmd rv sp cwd_arg h shelljs_exec evs) = Some x"
  shows "(\<forall>d. SetTimeout GraceCallback d \<in> set (calls x) \<longrightarrow> d = Literal 2000)
       \<and> (isNaN (timeoutSeconds h) \<or> timeoutSeconds h = Num 0
            \<longrightarrow> calls x = [] \<and> timers x = [] \<and> uncaught x = []
                \<and> armed_timers (exec cmd cwd_arg callback h shelljs_exec2) = [])"
proof -
  let ?o = "\<lparr> cwd = cwd_arg, env = env (fst (execOpts None h)), async = True, silent = None \<rparr>"
  let ?pr = "if sp then notification else progressNoop"
  from assms obtain p where sp: "shelljs_exec cmd ?o = Spawned p"
    by (cases "shelljs_exec cmd ?o")
       (auto simp: execWithOutput_def innerExec_def Let_def split_beta split: if_splits)
  from innerExec_Spawned[where shelljs_exec=shelljs_exec and cmd=cmd and cwd_arg=cwd_arg
         and h=h and p=p and rv=rv, OF sp]
  obtain x0 where
    x0: "calls x0 = setExecTimeoutKill (timeoutSeconds h)"
        "timers x0 = [(cb, d). SetTimeout cb d \<leftarrow> setExecTimeoutKill (timeoutSeconds h)]"
        "uncaught x0 = []"
    and fin: "\<And>tk evs progress. final (innerExec tk cmd rv cwd_arg h shelljs_exec evs progress)
                 = Some (run tk cmd progress x0 evs)"
    by blast
  from assms fin have x: "x = run tk cmd ?pr x0 evs"
    by (simp add: execWithOutput_def split: if_splits)
  have "grace_ok x0"
    by (simp add: grace_ok_def x0 setExecTimeoutKill_grace)
  then have "grace_ok x" unfolding x by (rule grace_ok_run)
  then have g: "\<forall>d. SetTimeout GraceCallback d \<in> set (calls x) \<longrightarrow> d = Literal 2000"
    by (simp add: grace_ok_def)
  have n: "calls x = [] \<and> timers x = [] \<and> uncaught x = []
           \<and> armed_timers (exec cmd cwd_arg callback h shelljs_exec2) = []"
    if z: "isNaN (timeoutSeconds h) \<or> timeoutSeconds h = Num 0"
  proof -
    from z have e: "setExecTimeoutKill (timeoutSeconds h) = []"
      by (auto simp: setExecTimeoutKill_def)
    then have "calls x0 = []" "timers x0 = []" "uncaught x0 = []" by (simp_all add: x0)
    then have "calls x = [] \<and> timers x = [] \<and> uncaught x = []" unfolding x by (rule idle_run)
    moreover have "armed_timers (exec cmd cwd_arg callback h shelljs_exec2) = []"
      using e
      by (simp add: exec_def execCore_def Let_def split_beta execOpts_keeps
               split: exec_outcome.splits option.splits promise.splits prod.splits)
    ultimately show ?thesis by simp
  qed
  from g n show ?thesis by blast
qed

theorem grace_window_fixed_and_no_timer_witness:
  "final (execWithOutput tkill_returns ''flux check'' True False None linux_host
            (\<lambda>_ _. Spawned child) [Fires DeadlineCallback])
     = Some \<lparr> proc = child, alive = {100}, timers = [(GraceCallback, Literal 2000)],
              calls = [SetTimeout DeadlineCallback (Product (Num 60) 1000),
                       ConsoleWarn ''timeout SIGTERM'' 100 ''/bin/sh -c flux check'',
                       TKill 100 15, SetTimeout GraceCallback (Literal 2000)],
              uncaught = [], stdout_buf = [], stderr_buf = [],
              sent = [\<lparr> message = ''> flux check'', newline = NewlineSingle,
                        revealOutputView = True, site = OfCommand \<rparr>],
              reported = [], resolves = [] \<rparr>
   \<and> final (execWithOutput tkill_returns ''flux check'' True False None windows_host
            (\<lambda>_ _. Spawned child) [Fires DeadlineCallback])
     = Some \<lparr> proc = child, alive = {100}, timers = [], calls = [], uncaught = [],
              stdout_buf = [], stderr_buf = [],
              sent = [\<lparr> message = ''> flux check'', newline = NewlineSingle,
                        revealOutputView = True, site = OfCommand \<rparr>],
              reported = [], resolves = [] \<rparr>
   \<and> armed_timers (exec ''flux check'' None None windows_host (\<lambda>_ _. Runs child None)) = []
   \<and> final (execWithOutput tkill_returns ''flux check'' True False None
            (linux_host \<lparr> timeoutSeconds := NaN \<rparr>) (\<lambda>_ _. Spawned child)
            [Fires DeadlineCallback])
     = Some \<lparr> proc = child, alive = {100}, timers = [], calls = [], uncaught = [],
              stdout_buf = [], stderr_buf = [],
              sent = [\<lparr> message = ''> flux check'', newline = NewlineSingle,
                        revealOutputView = True, site = OfCommand \<rparr>],
              reported = [], resolves = [] \<rparr>"
proof -
  let ?xa = "\<lparr> proc = child, alive = {100}, timers = [(GraceCallback, Literal 2000)],
              calls = [SetTimeout DeadlineCallback (Product (Num 60) 1000),
                       ConsoleWarn ''timeout SIGTERM'' 100 ''/bin/sh -c flux check'',
                       TKill 100 15, SetTimeout GraceCallback (Literal 2000)],
              uncaught = [], stdout_buf = [], stderr_buf = [],
              sent = [\<lparr> message = ''> flux check'', newline = NewlineSingle,
                        revealOutputView = True, site = OfCommand \<rparr>],
              reported = [], resolves = [] \<rparr>"
  let ?xb = "\<lparr> proc = child, alive = {100}, timers = [], calls = [], uncaught = [],
              stdout_buf = [], stderr_buf = [],
              sent = [\<lparr> message = ''> flux check'', newline = NewlineSingle,
                        revealOutputView = True, site = OfCommand \<rparr>],
              reported = [], resolves = [] \<rparr>"
  have a: "final (execWithOutput tkill_returns ''flux check'' True False None linux_host
            (\<lambda>_ _. Spawned child) [Fires DeadlineCallback]) = Some ?xa"
    by (simp add: run_linux_host)
  have b: "final (execWithOutput tkill_returns ''flux check'' True False None windows_host
            (\<lambda>_ _. Spawned child) [Fires DeadlineCallback]) = Some ?xb"
    by (simp add: execWithOutput_def innerExec_def Let_def execOpts_windows_host
          timeout_windows_host handler_defs child_def)
  have n: "execOpts None (linux_host \<lparr> timeoutSeconds := NaN \<rparr>) =
     (\<lparr> cwd = None, env = [(''PATH'', ''/usr/bin'')], async = True, silent = Some True \<rparr>,
      linux_host \<lparr> timeoutSeconds := NaN \<rparr>)"
    by (simp add: execOpts_def Let_def isWindows_def isUnix_def WINDOWS_def getUseWsl_def
          linux_host_def)
  have c: "final (execWithOutput tkill_returns ''flux check'' True False None
            (linux_host \<lparr> timeoutSeconds := NaN \<rparr>) (\<lambda>_ _. Spawned child)
            [Fires DeadlineCallback]) = Some ?xb"
    by (simp add: execWithOutput_def innerExec_def Let_def n setExecTimeoutKill_def isNaN_def
          handler_defs child_def)
  have z: "timeoutSeconds windows_host = Num 0"
    "isNaN (timeoutSeconds (linux_host \<lparr> timeoutSeconds := NaN \<rparr>))"
    by (simp_all add: windows_host_def isNaN_def)
  from grace_window_fixed_and_no_timer[OF a]
       grace_window_fixed_and_no_timer[OF b, of None "\<lambda>_ _. Runs child None"]
       grace_window_fixed_and_no_timer[OF c] a b c z
  show ?thesis by simp
qed

subsection \<open>Accumulation of the output\<close>

lemma execWithOutput_innerExec:
  "execWithOutput tk cmd rv sp cwd_arg h shelljs_exec evs =
     innerExec tk cmd rv cwd_arg h shelljs_exec evs (if sp then notification else progressNoop)"
  by (simp add: execWithOutput_def)

lemma chunks_step:
  "chunks k (step tk cmd pr x (StdoutData d)) = chunks k x @ (if k = OfStdout then [d] else [])"
  "chunks k (step tk cmd pr x (StderrData d)) = chunks k x @ (if k = OfStderr then [d] else [])"
  "chunks k (step tk cmd pr x (Exit c)) = chunks k x @ (if k = OfExit then [[CHR 0x0A]] else [])"
  "chunks k (step tk cmd pr x (Fires cb)) = chunks k x"
  by (simp_all add: chunks_def onStdoutData_def onStderrData_def onExit_def report_def send_def
        Let_def step_Fires_frame del: step.simps(4))

lemma bufs_step:
  "stdout_buf (step tk cmd pr x (StdoutData d)) = stdout_buf x @ d"
  "stderr_buf (step tk cmd pr x (StdoutData d)) = stderr_buf x"
  "stdout_buf (step tk cmd pr x (StderrData d)) = stdout_buf x"
  "stderr_buf (step tk cmd pr x (StderrData d)) = stderr_buf x @ d"
  "stdout_buf (step tk cmd pr x (Exit c)) = stdout_buf x"
  "stderr_buf (step tk cmd pr x (Exit c)) = (if c = None then timedOut cmd (stderr_buf x) else stderr_buf x)"
  by (simp_all add: onStdoutData_def onStderrData_def onExit_def report_def send_def Let_def)

lemma stdout_buf_chunks:
  "stdout_buf x = concat (chunks OfStdout x) \<Longrightarrow>
   stdout_buf (run tk cmd pr x evs) = concat (chunks OfStdout (run tk cmd pr x evs))"
proof (induction evs arbitrary: x)
  case Nil
  then show ?case by simp
next
  case (Cons e evs)
  have "stdout_buf (step tk cmd pr x e) = concat (chunks OfStdout (step tk cmd pr x e))"
    using Cons.prems
    by (cases e) (simp_all only: chunks_step bufs_step step_Fires_frame, simp_all)
  then show ?case using Cons.IH by simp
qed

lemma stderr_buf_chunks:
  "\<forall>e\<in>set evs. \<forall>k. e \<noteq> Exit k \<Longrightarrow> stderr_buf x = concat (chunks OfStderr x) \<Longrightarrow>
   stderr_buf (run tk cmd pr x evs) = concat (chunks OfStderr (run tk cmd pr x evs))"
proof (induction evs arbitrary: x)
  case Nil
  then show ?case by simp
next
  case (Cons e evs)
  have "stderr_buf (step tk cmd pr x e) = concat (chunks OfStderr (step tk cmd pr x e))"
    using Cons.prems
    by (cases e) (simp_all only: chunks_step bufs_step step_Fires_frame, simp_all)
  then show ?case using Cons.IH Cons.prems(1) by simp
qed

lemma chunks_run_quiet:
  "\<forall>e\<in>set evs. \<forall>d. e \<noteq> StdoutData d \<Longrightarrow>
   chunks OfStdout (run tk cmd pr x evs) = chunks OfStdout x"
  "\<forall>e\<in>set evs. \<forall>d. e \<noteq> StderrData d \<Longrightarrow>
   chunks OfStderr (run tk cmd pr x evs) = chunks OfStderr x"
proof (induction evs arbitrary: x)
  case Nil
  { case 1 show ?case by simp }
  { case 2 show ?case by simp }
next
  case (Cons e evs)
  { case 1
    then have "chunks OfStdout (step tk cmd pr x e) = chunks OfStdout x"
      by (cases e) (simp_all only: chunks_step, simp_all)
    with Cons.IH(1) 1 show ?case by simp }
  { case 2
    then have "chunks OfStderr (step tk cmd pr x e) = chunks OfStderr x"
      by (cases e) (simp_all only: chunks_step, simp_all)
    with Cons.IH(2) 2 show ?case by simp }
qed

lemma resolves_grow: "\<exists>more. resolves (run tk cmd pr x evs) = resolves x @ more"
proof (induction evs arbitrary: x)
  case Nil
  show ?case by simp
next
  case (Cons e evs)
  have "\<exists>m1. resolves (step tk cmd pr x e) = resolves x @ m1"
    by (cases e)
       (simp_all add: step_frame_data step_Fires_frame step_Exit_facts del: step.simps(3,4))
  then obtain m1 where "resolves (step tk cmd pr x e) = resolves x @ m1" ..
  moreover from Cons.IH obtain m2 where
    "resolves (run tk cmd pr (step tk cmd pr x e) evs) = resolves (step tk cmd pr x e) @ m2" by blast
  ultimately show ?case by (simp del: step.simps)
qed

text \<open>
  The result is put together in the \<^verbatim>\<open>exit\<close> handler: its stdout is the
  concatenation of the stdout chunks sent to the output channel before the \<^verbatim>\<open>exit\<close>
  event, and so is its stderr when the exit code is not null (with a null exit code
  it is that concatenation after the marker of the timeout). When no chunk of a
  stream follows the \<^verbatim>\<open>exit\<close> event, these are all the chunks of that stream.
\<close>

lemma result_is_chunks_until_exit:
  assumes pre: "\<forall>e\<in>set pre. \<forall>k. e \<noteq> Exit k"
  shows "\<exists>r y z.
      settled (execWithOutput tk cmd rv sp cwd_arg h (\<lambda>_ _. Spawned p) (pre @ Exit c # post))
        = Resolved r
    \<and> final (execWithOutput tk cmd rv sp cwd_arg h (\<lambda>_ _. Spawned p) pre) = Some y
    \<and> final (execWithOutput tk cmd rv sp cwd_arg h (\<lambda>_ _. Spawned p) (pre @ Exit c # post))
        = Some z
    \<and> code r = c
    \<and> stdout r = concat (chunks OfStdout y)
    \<and> (c \<noteq> None \<longrightarrow> stderr r = concat (chunks OfStderr y))
    \<and> (c = None \<longrightarrow> stderr r = timedOut cmd (concat (chunks OfStderr y)))
    \<and> ((\<forall>e\<in>set post. \<forall>d. e \<noteq> StdoutData d) \<longrightarrow> chunks OfStdout z = chunks OfStdout y)
    \<and> ((\<forall>e\<in>set post. \<forall>d. e \<noteq> StderrData d) \<longrightarrow> chunks OfStderr z = chunks OfStderr y)"
proof -
  let ?sh = "(\<lambda>_ _. Spawned p) :: string \<Rightarrow> ExecOptions \<Rightarrow> spawn"
  let ?pr = "if sp then notification else progressNoop"
  have "?sh cmd \<lparr> cwd = cwd_arg, env = env (fst (execOpts None h)), async = True, silent = None \<rparr>
          = Spawned p" by simp
  from innerExec_Spawned[where shelljs_exec="?sh" and cmd=cmd and cwd_arg=cwd_arg and h=h
         and p=p and rv=rv, OF this]
  obtain x0 where r0: "resolves x0 = []"
    and o0: "stdout_buf x0 = []" and e0: "stderr_buf x0 = []"
    and s0: "sent x0 = [\<lparr> message = ''> '' @ cmd, newline = NewlineSingle,
                revealOutputView = rv, site = OfCommand \<rparr>]"
    and fin: "\<And>tk evs progress. final (innerExec tk cmd rv cwd_arg h ?sh evs progress)
                 = Some (run tk cmd progress x0 evs)"
    and set: "\<And>tk evs progress. settled (innerExec tk cmd rv cwd_arg h ?sh evs progress)
                 = settle (resolves (run tk cmd progress x0 evs))"
    by blast
  define y where "y = run tk cmd ?pr x0 pre"
  define w where "w = step tk cmd ?pr y (Exit c)"
  define z where "z = run tk cmd ?pr w post"
  define r where "r = \<lparr> code = c, stdout = stdout_buf y,
        stderr = (if c = None then timedOut cmd (stderr_buf y) else stderr_buf y) \<rparr>"
  have rz: "run tk cmd ?pr x0 (pre @ Exit c # post) = z"
    by (simp add: run_append z_def w_def y_def)
  have c0: "chunks OfStdout x0 = []" "chunks OfStderr x0 = []"
    by (simp_all add: chunks_def s0)
  have out: "stdout_buf y = concat (chunks OfStdout y)"
    unfolding y_def by (rule stdout_buf_chunks) (simp add: o0 c0)
  have err: "stderr_buf y = concat (chunks OfStderr y)"
    unfolding y_def by (rule stderr_buf_chunks[OF pre]) (simp add: e0 c0)
  have "resolves y = []"
    unfolding y_def using resolves_no_exit[OF pre] r0 by simp
  then have "resolves w = [r]"
    unfolding w_def r_def by (simp only: step_Exit_facts append_Nil)
  moreover obtain more where "resolves z = resolves w @ more"
    unfolding z_def using resolves_grow by blast
  ultimately have "settle (resolves z) = Resolved r"
    by (simp add: settle_def)
  then have 1: "settled (execWithOutput tk cmd rv sp cwd_arg h ?sh (pre @ Exit c # post)) = Resolved r"
    by (simp only: execWithOutput_innerExec set rz)
  have 2: "final (execWithOutput tk cmd rv sp cwd_arg h ?sh pre) = Some y"
    by (simp only: execWithOutput_innerExec fin y_def)
  have 3: "final (execWithOutput tk cmd rv sp cwd_arg h ?sh (pre @ Exit c # post)) = Some z"
    by (simp only: execWithOutput_innerExec fin rz)
  have 4: "code r = c" "stdout r = concat (chunks OfStdout y)"
    "c \<noteq> None \<longrightarrow> stderr r = concat (chunks OfStderr y)"
    "c = None \<longrightarrow> stderr r = timedOut cmd (concat (chunks OfStderr y))"
    by (simp_all add: r_def out err)
  have 5: "chunks OfStdout z = chunks OfStdout y" if "\<forall>e\<in>set post. \<forall>d. e \<noteq> StdoutData d"
    unfolding z_def w_def by (simp only: chunks_run_quiet(1)[OF that] chunks_step) simp
  have 6: "chunks OfStderr z = chunks OfStderr y" if "\<forall>e\<in>set post. \<forall>d. e \<noteq> StderrData d"
    unfolding z_def w_def by (simp only: chunks_run_quiet(2)[OF that] chunks_step) simp
  from 1 2 3 4 5 6 show ?thesis
    by (intro exI[of _ r] exI[of _ y] exI[of _ z]) simp
qed

text \<open>
  C4: the claim has all stdout chunks sent to the output channel add up to the stdout
  of the result. The data handlers go on appending to \<^verbatim>\<open>stdout\<close> and \<^verbatim>\<open>stderr\<close> and
  sending to the output channel after \<^verbatim>\<open>resolve\<close>: a chunk that arrives after the
  \<^verbatim>\<open>exit\<close> event is sent to the channel and kept in the variable, and is missing from
  the result.
\<close>

theorem late_chunk_sent_but_not_returned:
  "settled (execWithOutput tkill_returns ''flux check'' True True None linux_host
              (\<lambda>_ _. Spawned child) [Exit (Some 0), StdoutData ''late''])
     = Resolved \<lparr> code = Some 0, stdout = [], stderr = [] \<rparr>
   \<and> map_option (\<lambda>x. concat (chunks OfStdout x))
        (final (execWithOutput tkill_returns ''flux check'' True True None linux_host
                  (\<lambda>_ _. Spawned child) [Exit (Some 0), StdoutData ''late'']))
     = Some ''late''
   \<and> map_option stdout_buf
        (final (execWithOutput tkill_returns ''flux check'' True True None linux_host
                  (\<lambda>_ _. Spawned child) [Exit (Some 0), StdoutData ''late'']))
     = Some ''late''"
  by (simp add: run_linux_host)

subsection \<open>The flags of execWithOutput\<close>

lemma result_core_step:
  assumes "resolves x = resolves y" "stdout_buf x = stdout_buf y" "stderr_buf x = stderr_buf y"
  shows "resolves (step tk cmd p1 x e) = resolves (step tk cmd p2 y e)
       \<and> stdout_buf (step tk cmd p1 x e) = stdout_buf (step tk cmd p2 y e)
       \<and> stderr_buf (step tk cmd p1 x e) = stderr_buf (step tk cmd p2 y e)"
proof (cases e)
  case (Fires cb)
  show ?thesis unfolding Fires using assms by (simp add: step_Fires_frame del: step.simps)
next
  case (Exit c)
  show ?thesis unfolding Exit using assms by (simp add: step_Exit_facts bufs_step del: step.simps)
qed (use assms in \<open>simp_all add: bufs_step del: step.simps\<close>,
     simp_all add: step_frame_data)

lemma result_core_run:
  assumes "resolves x = resolves y" "stdout_buf x = stdout_buf y" "stderr_buf x = stderr_buf y"
  shows "resolves (run tk cmd p1 x evs) = resolves (run tk cmd p2 y evs)"
  using assms
proof (induction evs arbitrary: x y)
  case Nil
  then show ?case by simp
next
  case (Cons e evs)
  from result_core_step[OF Cons.prems, where tk=tk and cmd=cmd and ?p1.0=p1 and e=e and ?p2.0=p2]
       Cons.IH
  show ?case by (simp del: step.simps)
qed

text \<open>
  C10: the promise of \<^verbatim>\<open>execWithOutput\<close> settles the same way whatever
  \<^verbatim>\<open>revealOutputView\<close> and \<^verbatim>\<open>showProgress\<close> are, the command, the host, the
  behaviour of \<^verbatim>\<open>shelljs.exec\<close> and of \<^verbatim>\<open>tkill\<close> and the events being the same.
\<close>

theorem result_independent_of_flags:
  "settled (execWithOutput tk cmd revealOutputView1 showProgress1 cwd_arg h shelljs_exec evs)
   = settled (execWithOutput tk cmd revealOutputView2 showProgress2 cwd_arg h shelljs_exec evs)"
proof (cases "shelljs_exec cmd \<lparr> cwd = cwd_arg, env = env (fst (execOpts None h)),
                               async = True, silent = None \<rparr>")
  case (SpawnThrows e)
  then show ?thesis
    by (simp add: execWithOutput_def innerExec_def Let_def split_beta)
next
  case SpawnNull
  then show ?thesis
    by (simp add: execWithOutput_def innerExec_def Let_def split_beta)
next
  case (Spawned p)
  from innerExec_Spawned[where shelljs_exec=shelljs_exec and cmd=cmd and cwd_arg=cwd_arg and h=h
         and p=p and rv=revealOutputView1, OF Spawned]
  obtain x1 where x1: "resolves x1 = []" "stdout_buf x1 = []" "stderr_buf x1 = []"
    and s1: "\<And>tk evs progress. settled (innerExec tk cmd revealOutputView1 cwd_arg h shelljs_exec evs progress)
                 = settle (resolves (run tk cmd progress x1 evs))"
    by blast
  from innerExec_Spawned[where shelljs_exec=shelljs_exec and cmd=cmd and cwd_arg=cwd_arg and h=h
         and p=p and rv=revealOutputView2, OF Spawned]
  obtain x2 where x2: "resolves x2 = []" "stdout_buf x2 = []" "stderr_buf x2 = []"
    and s2: "\<And>tk evs progress. settled (innerExec tk cmd revealOutputView2 cwd_arg h shelljs_exec evs progress)
                 = settle (resolves (run tk cmd progress x2 evs))"
    by blast
  have rr: "resolves (run tk cmd p1 x1 evs) = resolves (run tk cmd p2 x2 evs)" for p1 p2
    by (rule result_core_run) (simp_all add: x1 x2)
  show ?thesis
    unfolding execWithOutput_innerExec s1 s2 by (rule arg_cong[OF rr])
qed

subsection \<open>Timers that run out after the exit\<close>



subsection \<open>The two-stage kill\<close>

text \<open>
  What the two timer callbacks do. When the deadline timer runs out and the process
  object has no exit code, \<^verbatim>\<open>tkill\<close> is called with signal 15 and, when it returns, the
  grace timer is armed with 2000 milliseconds. When that runs out, \<^verbatim>\<open>tkill\<close> is called
  with signal 9 if the process itself is still running, and nothing is done if it is
  not.
\<close>

lemma timers_sigterm_then_sigkill:
  "(armed DeadlineCallback x \<and> exitCode (proc x) = None \<and> tk (pid (proc x)) 15 = None \<longrightarrow>
        calls (step tk cmd pr x (Fires DeadlineCallback)) =
          calls x @ [ConsoleWarn ''timeout SIGTERM'' (pid (proc x)) (join '' '' (spawnargs (proc x))),
                     TKill (pid (proc x)) 15,
                     SetTimeout GraceCallback (Literal 2000)]
        \<and> timers (step tk cmd pr x (Fires DeadlineCallback)) =
            disarm DeadlineCallback (timers x) @ [(GraceCallback, Literal 2000)])
   \<and> (armed GraceCallback x \<and> isRunning (alive x) (pid (proc x)) \<longrightarrow>
        calls (step tk cmd pr x (Fires GraceCallback)) =
          calls x @ [ConsoleWarn ''timeout SIGKILL'' (pid (proc x)) (join '' '' (spawnargs (proc x))),
                     TKill (pid (proc x)) 9])
   \<and> (armed GraceCallback x \<and> \<not> isRunning (alive x) (pid (proc x)) \<longrightarrow>
        calls (step tk cmd pr x (Fires GraceCallback)) = calls x)"
  by (simp add: step_Fires_calls deadlineCallback_calls graceCallback_calls
        step_Fires perform_timers thrown_frame del: step.simps)

text \<open>
  C2: the claim has the kill signal sent to the whole tree whenever the process or one
  of its descendants is alive after the grace window. The callback of the grace timer
  asks for the process itself only: once that is gone it sends nothing, and a process
  it started, here 101, that has outlived signal 15 is left running. So it is after a
  launch whose process ends on signal 15 within the grace window: no signal 9 is
  sent, whatever the process has started.
\<close>

theorem orphan_survives_grace_window:
  "pid (proc orphaned) = 100
   \<and> isRunning (alive orphaned) 101
   \<and> armed GraceCallback orphaned
   \<and> step tkill_returns ''flux check'' progressNoop orphaned (Fires GraceCallback)
       = orphaned \<lparr> timers := [] \<rparr>
   \<and> TKill 100 9 \<notin> set (calls (step tkill_returns ''flux check'' progressNoop orphaned
                                   (Fires GraceCallback)))
   \<and> map_option (\<lambda>x. (calls x, timers x))
        (final (execWithOutput tkill_returns ''flux check'' True True None linux_host
                  (\<lambda>_ _. Spawned child) [Fires DeadlineCallback, Exit None, Fires GraceCallback]))
     = Some ([SetTimeout DeadlineCallback (Product (Num 60) 1000),
              ConsoleWarn ''timeout SIGTERM'' 100 ''/bin/sh -c flux check'',
              TKill 100 15, SetTimeout GraceCallback (Literal 2000)], [])"
  by (simp add: orphaned_def terminating_def run_linux_host)

subsection \<open>A process ended by the timeout\<close>

text \<open>
  C1: the claim has every result of a process ended by the timeout carry the marker in
  its stderr. \<^verbatim>\<open>execWithOutput\<close> does so; \<^verbatim>\<open>exec\<close> arms the same timeout and passes
  on what \<^verbatim>\<open>shelljs.exec\<close> reports: with a null exit code the stderr of its result is
  the stderr captured, without a marker.
\<close>

theorem exec_timeout_stderr_unmarked:
  "result (exec cmd cwd_arg None h (\<lambda>_ _. Runs p (Some (None, out, err))))
     = Resolved \<lparr> code = None, stdout = out, stderr = err \<rparr>
   \<and> settled (execWithOutput tk cmd rv sp cwd_arg h (\<lambda>_ _. Spawned p)
                [StderrData err, Exit None])
     = Resolved \<lparr> code = None, stdout = [], stderr = timedOut cmd err \<rparr>"
  by (simp add: exec_def execCore_def execWithOutput_def innerExec_def Let_def split_beta
        getUseWsl_def settle_def onStderrData_def onExit_def report_def send_def perform_frame)

subsection \<open>A spawn that fails\<close>

text \<open>
  C3: the claim has no exception of a failed spawn reach the caller. \<^verbatim>\<open>exec\<close> catches
  it and resolves to the result with code 2 and the error text in stderr;
  \<^verbatim>\<open>execWithOutput\<close> has no handler, and an exception of \<^verbatim>\<open>shelljs.exec\<close> rejects its
  promise.
\<close>

theorem execWithOutput_spawn_exception_rejects:
  "settled (execWithOutput tk cmd rv sp cwd_arg h (\<lambda>_ _. SpawnThrows e) evs) = Rejected e
   \<and> result (exec cmd cwd_arg callback h (\<lambda>_ _. Throws e))
     = Resolved \<lparr> code = Some 2, stdout = [], stderr = ''Failed to execute '' @ e \<rparr>"
  by (simp add: exec_def execCore_def execWithOutput_def innerExec_def Let_def split_beta)

subsection \<open>The environment of the child\<close>

text \<open>The environment given to the child is the object \<^verbatim>\<open>process.env\<close> as left behind.\<close>

lemma execOpts_env_is_process_env:
  "env (fst (execOpts c h)) = process_env (snd (execOpts c h))"
  by (simp add: execOpts_def Let_def)

text \<open>
  C7: the claim has a launch leave the environment of the extension host unchanged and
  repeated launches give the child the same environment. On Windows with a stored
  path of flux, a launch writes \<^verbatim>\<open>KUBECONFIG\<close> into \<^verbatim>\<open>process.env\<close> and appends the path
  of flux to its \<^verbatim>\<open>Path\<close>, and the next launch appends it once more.
\<close>

theorem execOpts_changes_process_env:
  "process_env windows_host = [(''Path'', ''C:/Windows'')]
   \<and> process_env (snd (execOpts None windows_host))
       = [(''Path'', ''C:/Windows;C:/flux''), (''KUBECONFIG'', ''C:/kube/config'')]
   \<and> env (fst (execOpts None windows_host))
       = [(''Path'', ''C:/Windows;C:/flux''), (''KUBECONFIG'', ''C:/kube/config'')]
   \<and> env (fst (execOpts None (snd (execOpts None windows_host))))
       = [(''Path'', ''C:/Windows;C:/flux;C:/flux''), (''KUBECONFIG'', ''C:/kube/config'')]
   \<and> process_env (host_end (exec ''flux check'' None None windows_host (\<lambda>_ _. Runs child None)))
       = [(''Path'', ''C:/Windows;C:/flux''), (''KUBECONFIG'', ''C:/kube/config'')]"
proof -
  have 1: "process_env windows_host = [(''Path'', ''C:/Windows'')]"
    by (simp add: windows_host_def)
  have 2: "execOpts None (windows_host \<lparr> process_env :=
        [(''Path'', ''C:/Windows;C:/flux''), (''KUBECONFIG'', ''C:/kube/config'')] \<rparr>) =
     (\<lparr> cwd = None,
        env = [(''Path'', ''C:/Windows;C:/flux;C:/flux''), (''KUBECONFIG'', ''C:/kube/config'')],
        async = True, silent = Some True \<rparr>,
      windows_host \<lparr> process_env :=
        [(''Path'', ''C:/Windows;C:/flux;C:/flux''), (''KUBECONFIG'', ''C:/kube/config'')] \<rparr>)"
    by (simp add: execOpts_def Let_def isWindows_def isUnix_def WINDOWS_def getUseWsl_def
          truthy_def toString_def getProp_def windows_host_def)
  have 3: "process_env (host_end (exec ''flux check'' None None windows_host (\<lambda>_ _. Runs child None)))
       = [(''Path'', ''C:/Windows;C:/flux''), (''KUBECONFIG'', ''C:/kube/config'')]"
    by (simp add: exec_def execCore_def execOpts_windows_host Let_def)
  show ?thesis
    by (simp add: 1 2 3 execOpts_windows_host)
qed

subsection \<open>An empty command line\<close>



end
